theory Spec2Isabelle
  imports Main "HOL-Library.Sublist"
begin

section \<open>The service worker of the AI Interior site (sw.js)\<close>

text \<open>
  The worker script registers handlers for the install, activate and fetch events and
  two strategies, \<open>cacheFirst\<close> and \<open>networkFirst\<close>. Everything it does goes through
  three browser interfaces: \<open>caches\<close> (the CacheStorage of the origin), \<open>fetch\<close> (the
  network) and the event it was given. The handlers are embedded as functions over an
  explicit worker state; the browser interfaces are embedded as small functions of their
  own, written after the Service Worker and Fetch standards, so that each line of the
  script is one call in the model.
\<close>

subsection \<open>Requests and responses\<close>

text \<open>
  Of a request the script reads \<open>request.url\<close>, \<open>request.method\<close>, \<open>request.mode\<close>
  and, through \<open>new URL(request.url)\<close>, the fields \<open>origin\<close> and \<open>href\<close>. A request's
  URL is already absolute and serialised, so \<open>href\<close> is \<open>request.url\<close>; the parsed
  origin is carried as a field of its own, and \<open>request.method\<close> is the field
  \<open>http_method\<close>.
\<close>

record request =
  url :: string
  origin :: string
  http_method :: string
  mode :: string

record response =
  status :: nat
  statusText :: string
  body :: string
  headers :: "(string \<times> string) list"

text \<open>\<open>response.ok\<close>: the status is in the range 200 to 299.\<close>

definition ok :: "response \<Rightarrow> bool" where
  "ok r = (200 \<le> status r \<and> status r \<le> 299)"

text \<open>
  \<open>fetch(request)\<close> either rejects (offline, DNS failure) or resolves with a response of
  any status. The network is a parameter \<open>net\<close> of every handler.
\<close>

datatype fetch_result = NetworkError | Fetched response

datatype error = NetworkFailure | BadStatus nat

datatype 'a promise = Resolved 'a | Rejected error

subsection \<open>Cache stores and the calls the worker makes\<close>

text \<open>
  A cache store holds responses keyed by the URL of a GET request, in insertion order.
  The CacheStorage keeps its stores in creation order, which is the order of
  \<open>caches.keys()\<close> and of the search of \<open>caches.match\<close>.
\<close>

type_synonym cache = "(string \<times> response) list"

type_synonym cache_storage = "(string \<times> cache) list"

text \<open>Every call of a browser interface is recorded, in order, next to the stores.\<close>

datatype event =
    CachesOpen string
  | CachesKeys
  | CachesDelete string
  | CachesMatch request
  | CacheMatch string request
  | CachePut string request response
  | CacheAddAll string "request list"
  | Fetch request
  | SkipWaiting
  | ClientsClaim

record sw_state =
  caches :: cache_storage
  events :: "event list"

definition emit :: "event \<Rightarrow> sw_state \<Rightarrow> sw_state" where
  "emit e s = s\<lparr>events := events s @ [e]\<rparr>"

text \<open>
  A string given where a request is expected (\<open>cache.match('/offline.html')\<close>, the
  entries of \<open>cache.addAll\<close>) becomes a GET request for that path resolved against the
  worker's own origin \<open>loc\<close>.
\<close>

definition url_request :: "string \<Rightarrow> string \<Rightarrow> request" where
  "url_request loc path = \<lparr>url = loc @ path, origin = loc, http_method = ''GET'', mode = ''cors''\<rparr>"

text \<open>\<open>caches.open(name)\<close> creates the store when it does not exist yet.\<close>

definition caches_open :: "string \<Rightarrow> sw_state \<Rightarrow> sw_state" where
  "caches_open name s =
     emit (CachesOpen name)
       (if name \<in> set (map fst (caches s)) then s
        else s\<lparr>caches := caches s @ [(name, [])]\<rparr>)"

text \<open>
  \<open>cache.match(request)\<close> finds nothing for a request that is not a GET, and otherwise
  the response stored under the request's URL.
\<close>

definition lookup :: "cache_storage \<Rightarrow> string \<Rightarrow> request \<Rightarrow> response option" where
  "lookup cs name req =
     (if http_method req = ''GET''
      then (case map_of cs name of None \<Rightarrow> None | Some c \<Rightarrow> map_of c (url req))
      else None)"

definition cache_match :: "string \<Rightarrow> request \<Rightarrow> sw_state \<Rightarrow> response option \<times> sw_state" where
  "cache_match name req s = (lookup (caches s) name req, emit (CacheMatch name req) s)"

text \<open>\<open>caches.match(request)\<close> searches every store, in creation order.\<close>

fun lookup_any :: "cache_storage \<Rightarrow> request \<Rightarrow> response option" where
  "lookup_any [] req = None"
| "lookup_any ((name, c) # cs) req =
     (case map_of c (url req) of Some r \<Rightarrow> Some r | None \<Rightarrow> lookup_any cs req)"

definition caches_match :: "request \<Rightarrow> sw_state \<Rightarrow> response option \<times> sw_state" where
  "caches_match req s =
     (if http_method req = ''GET'' then lookup_any (caches s) req else None,
      emit (CachesMatch req) s)"

text \<open>
  \<open>cache.put(request, response)\<close> replaces the entry of the request's URL. For a request
  that is not a GET the browser rejects the call with a TypeError and writes nothing;
  the script does not await the call, so the rejection reaches no handler of the script.
\<close>

definition put_entry :: "string \<Rightarrow> response \<Rightarrow> cache \<Rightarrow> cache" where
  "put_entry k v c = filter (\<lambda>(k', _). k' \<noteq> k) c @ [(k, v)]"

definition store_put :: "string \<Rightarrow> request \<Rightarrow> response \<Rightarrow> cache_storage \<Rightarrow> cache_storage" where
  "store_put name req resp cs =
     map (\<lambda>(n, c). if n = name then (n, put_entry (url req) resp c) else (n, c)) cs"

definition cache_put :: "string \<Rightarrow> request \<Rightarrow> response \<Rightarrow> sw_state \<Rightarrow> sw_state" where
  "cache_put name req resp s =
     emit (CachePut name req resp)
       (if http_method req = ''GET'' then s\<lparr>caches := store_put name req resp (caches s)\<rparr> else s)"

definition fetch :: "(request \<Rightarrow> fetch_result) \<Rightarrow> request \<Rightarrow> sw_state \<Rightarrow> fetch_result \<times> sw_state" where
  "fetch net req s = (net req, emit (Fetch req) s)"

text \<open>
  \<open>cache.addAll(urls)\<close> fetches every URL and rejects, writing nothing, when one fetch
  rejects or one response is not ok; only when all have arrived does it store them all.
\<close>

fun fetch_all :: "(request \<Rightarrow> fetch_result) \<Rightarrow> request list \<Rightarrow> error + response list" where
  "fetch_all net [] = Inr []"
| "fetch_all net (r # rs) =
     (case net r of
        NetworkError \<Rightarrow> Inl NetworkFailure
      | Fetched resp \<Rightarrow>
          if ok resp
          then (case fetch_all net rs of Inl e \<Rightarrow> Inl e | Inr resps \<Rightarrow> Inr (resp # resps))
          else Inl (BadStatus (status resp)))"

fun store_put_all :: "string \<Rightarrow> (request \<times> response) list \<Rightarrow> cache_storage \<Rightarrow> cache_storage" where
  "store_put_all name [] cs = cs"
| "store_put_all name ((req, resp) # rest) cs = store_put_all name rest (store_put name req resp cs)"

definition cache_addAll ::
  "string \<Rightarrow> (request \<Rightarrow> fetch_result) \<Rightarrow> string \<Rightarrow> string list \<Rightarrow> sw_state \<Rightarrow> unit promise \<times> sw_state" where
  "cache_addAll loc net name paths s =
     (let reqs = map (url_request loc) paths;
          s1 = emit (CacheAddAll name reqs) s
      in case fetch_all net reqs of
           Inl e \<Rightarrow> (Rejected e, s1)
         | Inr resps \<Rightarrow> (Resolved (), s1\<lparr>caches := store_put_all name (zip reqs resps) (caches s1)\<rparr>))"

definition caches_keys :: "sw_state \<Rightarrow> string list \<times> sw_state" where
  "caches_keys s = (map fst (caches s), emit CachesKeys s)"

definition caches_delete :: "string \<Rightarrow> sw_state \<Rightarrow> sw_state" where
  "caches_delete name s =
     emit (CachesDelete name) (s\<lparr>caches := filter (\<lambda>(n, _). n \<noteq> name) (caches s)\<rparr>)"

subsection \<open>The constants of the script\<close>

definition CACHE_VERSION :: string where
  "CACHE_VERSION = ''ai-interior-v1.0.0''"

definition CACHE_NAME :: string where
  "CACHE_NAME = CACHE_VERSION @ ''::static''"

definition RUNTIME_CACHE :: string where
  "RUNTIME_CACHE = CACHE_VERSION @ ''::runtime''"

definition PRECACHE_ASSETS :: "string list" where
  "PRECACHE_ASSETS =
     [''/'',
      ''/index.html'',
      ''/assets/css/main.css'',
      ''/assets/css/components.css'',
      ''/assets/js/main.js'',
      ''/assets/js/theme.js'',
      ''/assets/js/navigation.js'',
      ''/assets/js/animations.js'',
      ''/assets/js/portfolio.js'',
      ''/assets/js/utils.js'',
      ''/assets/js/form-handler.js'',
      ''/components/header.html'',
      ''/components/hero-section.html'',
      ''/components/about-section.html'',
      ''/components/services-section.html'',
      ''/components/portfolio-section.html'',
      ''/components/why-choose-section.html'',
      ''/components/process-section.html'',
      ''/components/testimonials-section.html'',
      ''/components/blog-section.html'',
      ''/components/contact-section.html'',
      ''/components/footer.html'']"

definition RUNTIME_CACHE_URLS :: "string list" where
  "RUNTIME_CACHE_URLS =
     [''https://fonts.googleapis.com'',
      ''https://fonts.gstatic.com'',
      ''https://cdnjs.cloudflare.com'']"

subsection \<open>Install and activate\<close>

text \<open>
  The install handler gives \<open>event.waitUntil\<close> the promise of the chain
  open, addAll, skipWaiting, with a final \<open>catch\<close> that logs the error and returns
  nothing: a rejection of \<open>addAll\<close> skips the \<open>then\<close> of \<open>skipWaiting\<close> and is turned
  by the \<open>catch\<close> into a resolved promise.
\<close>

definition install :: "string \<Rightarrow> (request \<Rightarrow> fetch_result) \<Rightarrow> sw_state \<Rightarrow> unit promise \<times> sw_state" where
  "install loc net s =
     (let s1 = caches_open CACHE_NAME s
      in case cache_addAll loc net CACHE_NAME PRECACHE_ASSETS s1 of
           (Resolved u, s2) \<Rightarrow> (Resolved (), emit SkipWaiting s2)
         | (Rejected e, s2) \<Rightarrow> (Resolved (), s2))"

text \<open>
  The activate handler maps over \<open>caches.keys()\<close>, deleting every name that is neither
  of the two current names, then claims the clients.
\<close>

definition delete_if_old :: "string \<Rightarrow> sw_state \<Rightarrow> sw_state" where
  "delete_if_old cacheName s =
     (if cacheName \<noteq> CACHE_NAME \<and> cacheName \<noteq> RUNTIME_CACHE
      then caches_delete cacheName s else s)"

definition activate :: "sw_state \<Rightarrow> unit promise \<times> sw_state" where
  "activate s =
     (let (cacheNames, s1) = caches_keys s;
          s2 = fold delete_if_old cacheNames s1
      in (Resolved (), emit ClientsClaim s2))"

subsection \<open>The two strategies\<close>

definition offline_content_response :: response where
  "offline_content_response =
     \<lparr>status = 503, statusText = ''Service Unavailable'',
      body = ''Offline - Content not available'',
      headers = [(''Content-Type'', ''text/plain'')]\<rparr>"

definition offline_response :: response where
  "offline_response =
     \<lparr>status = 503, statusText = ''Service Unavailable'', body = ''Offline'', headers = []\<rparr>"

definition cacheFirst ::
  "string \<Rightarrow> (request \<Rightarrow> fetch_result) \<Rightarrow> request \<Rightarrow> string \<Rightarrow> sw_state \<Rightarrow> response promise \<times> sw_state" where
  "cacheFirst loc net req cacheName s =
     (let s1 = caches_open cacheName s;
          (cached, s2) = cache_match cacheName req s1
      in case cached of
           Some c \<Rightarrow> (Resolved c, s2)
         | None \<Rightarrow>
             (case fetch net req s2 of
                (Fetched resp, s3) \<Rightarrow>
                  (Resolved resp, if ok resp then cache_put cacheName req resp s3 else s3)
              | (NetworkError, s3) \<Rightarrow>
                  (let (offlinePage, s4) = cache_match cacheName (url_request loc ''/offline.html'') s3
                   in case offlinePage of
                        Some p \<Rightarrow> (Resolved p, s4)
                      | None \<Rightarrow> (Resolved offline_content_response, s4))))"

definition networkFirst ::
  "string \<Rightarrow> (request \<Rightarrow> fetch_result) \<Rightarrow> request \<Rightarrow> sw_state \<Rightarrow> response promise \<times> sw_state" where
  "networkFirst loc net req s =
     (let s1 = caches_open RUNTIME_CACHE s
      in case fetch net req s1 of
           (Fetched resp, s2) \<Rightarrow>
             (Resolved resp, if ok resp then cache_put RUNTIME_CACHE req resp s2 else s2)
         | (NetworkError, s2) \<Rightarrow>
             (let (cached, s3) = cache_match RUNTIME_CACHE req s2
              in case cached of
                   Some c \<Rightarrow> (Resolved c, s3)
                 | None \<Rightarrow>
                     if mode req = ''navigate''
                     then (case caches_match (url_request loc ''/offline.html'') s3 of
                             (Some p, s4) \<Rightarrow> (Resolved p, s4)
                           | (None, s4) \<Rightarrow>
                               (case caches_match (url_request loc ''/index.html'') s4 of
                                  (Some p, s5) \<Rightarrow> (Resolved p, s5)
                                | (None, s5) \<Rightarrow> (Resolved offline_response, s5)))
                     else (Resolved offline_response, s3)))"

subsection \<open>The fetch handler\<close>

text \<open>\<open>url.href.startsWith(cacheUrl)\<close> for some entry of the list.\<close>

definition shouldCacheExternal :: "string \<Rightarrow> bool" where
  "shouldCacheExternal href = list_ex (\<lambda>cacheUrl. prefix cacheUrl href) RUNTIME_CACHE_URLS"

text \<open>\<open>str.includes(sub)\<close>: \<open>sub\<close> occurs somewhere in \<open>str\<close>.\<close>

fun str_includes :: "string \<Rightarrow> string \<Rightarrow> bool" where
  "str_includes [] sub = (sub = [])"
| "str_includes (c # cs) sub = (prefix sub (c # cs) \<or> str_includes cs sub)"

text \<open>
  The handler either returns without calling \<open>event.respondWith\<close>, and the browser
  handles the request as if there were no worker, or answers with a promise.
\<close>

datatype handled = NoRespond | RespondWith "response promise"

definition fetch_promise :: "fetch_result \<Rightarrow> response promise" where
  "fetch_promise r = (case r of NetworkError \<Rightarrow> Rejected NetworkFailure | Fetched resp \<Rightarrow> Resolved resp)"

definition respond :: "response promise \<times> sw_state \<Rightarrow> handled \<times> sw_state" where
  "respond r = (RespondWith (fst r), snd r)"

definition fetch_handler ::
  "string \<Rightarrow> (request \<Rightarrow> fetch_result) \<Rightarrow> request \<Rightarrow> sw_state \<Rightarrow> handled \<times> sw_state" where
  "fetch_handler loc net req s =
     (if origin req \<noteq> loc then
        (if shouldCacheExternal (url req)
         then respond (cacheFirst loc net req RUNTIME_CACHE s)
         else (NoRespond, s))
      else if str_includes (url req) ''/api/'' then respond (networkFirst loc net req s)
      else if http_method req \<noteq> ''GET'' then
        (let (r, s1) = fetch net req s in (RespondWith (fetch_promise r), s1))
      else if mode req = ''navigate'' then respond (networkFirst loc net req s)
      else respond (cacheFirst loc net req CACHE_NAME s))"

subsection \<open>Reading the record of calls\<close>

text \<open>The stores deleted and the requests sent to the network, as the event list shows them.\<close>

fun deletions :: "event list \<Rightarrow> string list" where
  "deletions [] = []"
| "deletions (CachesDelete n # es) = n # deletions es"
| "deletions (e # es) = deletions es"

fun fetches :: "event list \<Rightarrow> request list" where
  "fetches [] = []"
| "fetches (Fetch r # es) = r # fetches es"
| "fetches (e # es) = fetches es"

definition is_current :: "string \<Rightarrow> bool" where
  "is_current name = (name = CACHE_NAME \<or> name = RUNTIME_CACHE)"

text \<open>A fetch fails for \<open>cache.addAll\<close> when it rejects or its response is not ok.\<close>

definition fetch_fails :: "(request \<Rightarrow> fetch_result) \<Rightarrow> request \<Rightarrow> bool" where
  "fetch_fails net r = (case net r of NetworkError \<Rightarrow> True | Fetched resp \<Rightarrow> \<not> ok resp)"

subsection \<open>Concrete scenarios\<close>

definition site :: string where
  "site = ''https://aiinterior.in''"

definition fresh :: sw_state where
  "fresh = \<lparr>caches = [], events = []\<rparr>"

definition page_response :: response where
  "page_response = \<lparr>status = 200, statusText = ''OK'', body = ''page'', headers = []\<rparr>"

definition shell_response :: response where
  "shell_response = \<lparr>status = 200, statusText = ''OK'', body = ''shell document'', headers = []\<rparr>"

definition offline_page :: response where
  "offline_page = \<lparr>status = 200, statusText = ''OK'', body = ''You are offline'', headers = []\<rparr>"

definition old_response :: response where
  "old_response = \<lparr>status = 200, statusText = ''OK'', body = ''old'', headers = []\<rparr>"

definition not_found :: response where
  "not_found = \<lparr>status = 404, statusText = ''Not Found'', body = ''missing'', headers = []\<rparr>"

definition net_offline :: "request \<Rightarrow> fetch_result" where
  "net_offline r = NetworkError"

definition net_online :: "request \<Rightarrow> fetch_result" where
  "net_online r = Fetched page_response"

definition net_css_missing :: "request \<Rightarrow> fetch_result" where
  "net_css_missing r =
     (if url r = site @ ''/assets/css/main.css'' then Fetched not_found else Fetched page_response)"

definition three_stores :: sw_state where
  "three_stores =
     \<lparr>caches = [(''ai-interior-v0.9.0::static'', [(''https://aiinterior.in/'', old_response)]),
                (''ai-interior-v1.0.0::static'', []),
                (''ai-interior-v1.0.0::runtime'', [])],
      events = []\<rparr>"

text \<open>A storage in which the static store holds the shell, a stylesheet and an offline page.\<close>

definition warm :: sw_state where
  "warm =
     \<lparr>caches = [(''ai-interior-v1.0.0::static'',
                  [(''https://aiinterior.in/index.html'', shell_response),
                   (''https://aiinterior.in/assets/css/main.css'', page_response),
                   (''https://aiinterior.in/offline.html'', offline_page)]),
                (''ai-interior-v1.0.0::runtime'', [])],
      events = []\<rparr>"

text \<open>A storage as the install handler leaves it: the shell is there, no offline page.\<close>

definition shell_only :: sw_state where
  "shell_only =
     \<lparr>caches = [(''ai-interior-v1.0.0::static'',
                  [(''https://aiinterior.in/index.html'', shell_response)])],
      events = []\<rparr>"

definition css_request :: request where
  "css_request =
     \<lparr>url = ''https://aiinterior.in/assets/css/main.css'', origin = ''https://aiinterior.in'',
      http_method = ''GET'', mode = ''no-cors''\<rparr>"

definition image_request :: request where
  "image_request =
     \<lparr>url = ''https://aiinterior.in/assets/images/hero.jpg'', origin = ''https://aiinterior.in'',
      http_method = ''GET'', mode = ''no-cors''\<rparr>"

definition about_navigation :: request where
  "about_navigation =
     \<lparr>url = ''https://aiinterior.in/about'', origin = ''https://aiinterior.in'',
      http_method = ''GET'', mode = ''navigate''\<rparr>"

definition api_post :: request where
  "api_post =
     \<lparr>url = ''https://aiinterior.in/api/contact'', origin = ''https://aiinterior.in'',
      http_method = ''POST'', mode = ''cors''\<rparr>"

definition contact_post :: request where
  "contact_post =
     \<lparr>url = ''https://aiinterior.in/contact'', origin = ''https://aiinterior.in'',
      http_method = ''POST'', mode = ''cors''\<rparr>"

definition formsubmit_post :: request where
  "formsubmit_post =
     \<lparr>url = ''https://formsubmit.co/ajax/owner@example.com'', origin = ''https://formsubmit.co'',
      http_method = ''POST'', mode = ''cors''\<rparr>"

definition font_request :: request where
  "font_request =
     \<lparr>url = ''https://fonts.googleapis.com/css2?family=Inter'',
      origin = ''https://fonts.googleapis.com'', http_method = ''GET'', mode = ''no-cors''\<rparr>"

definition font_post :: request where
  "font_post =
     \<lparr>url = ''https://fonts.googleapis.com/report'',
      origin = ''https://fonts.googleapis.com'', http_method = ''POST'', mode = ''cors''\<rparr>"


section \<open>Properties\<close>

subsection \<open>Facts about the browser interfaces\<close>

lemma current_names:
  "CACHE_NAME = ''ai-interior-v1.0.0::static''"
  "RUNTIME_CACHE = ''ai-interior-v1.0.0::runtime''"
  by (simp_all add: CACHE_NAME_def RUNTIME_CACHE_def CACHE_VERSION_def)

lemma deletions_append: "deletions (xs @ ys) = deletions xs @ deletions ys"
  by (induction xs rule: deletions.induct) simp_all

lemma deletions_map_delete: "deletions (map CachesDelete ns) = ns"
  by (induction ns) simp_all

lemma fetches_append: "fetches (xs @ ys) = fetches xs @ fetches ys"
  by (induction xs rule: fetches.induct) simp_all

lemma map_of_open:
  "map_of (caches (caches_open name s)) n =
     (case map_of (caches s) n of Some c \<Rightarrow> Some c | None \<Rightarrow> if n = name then Some [] else None)"
proof (cases "name \<in> fst ` set (caches s)")
  case True
  then have "map_of (caches s) name \<noteq> None"
    by (simp add: map_of_eq_None_iff)
  with True show ?thesis
    by (auto simp: caches_open_def emit_def split: option.splits)
next
  case False
  then have "map_of (caches s) name = None"
    by (simp add: map_of_eq_None_iff)
  with False show ?thesis
    by (auto simp: caches_open_def emit_def map_add_def split: option.splits)
qed

lemma lookup_open: "lookup (caches (caches_open name s)) n q = lookup (caches s) n q"
  by (simp add: lookup_def map_of_open split: option.splits)

lemma lookup_any_append_empty: "lookup_any (cs @ [(name, [])]) q = lookup_any cs q"
  by (induction cs q rule: lookup_any.induct) (simp_all split: option.splits)

lemma lookup_any_open: "lookup_any (caches (caches_open name s)) q = lookup_any (caches s) q"
  by (simp add: caches_open_def emit_def lookup_any_append_empty)

lemma events_open: "events (caches_open name s) = events s @ [CachesOpen name]"
  by (simp add: caches_open_def emit_def)

lemma caches_open_existing:
  "map_of (caches s) name = Some c \<Longrightarrow> caches (caches_open name s) = caches s"
  by (auto simp: caches_open_def emit_def dest: map_of_SomeD intro: rev_image_eqI)

lemma map_of_filter_key:
  "map_of (filter (\<lambda>(k', _). k' \<noteq> k) c) k' = (if k' = k then None else map_of c k')"
  by (induction c) auto

lemma map_of_put_entry:
  "map_of (put_entry k v c) k' = (if k' = k then Some v else map_of c k')"
  by (simp add: put_entry_def map_add_def map_of_filter_key split: option.splits)

lemma map_of_store_put:
  "map_of (store_put name req resp cs) n =
     (case map_of cs n of
        None \<Rightarrow> None
      | Some c \<Rightarrow> Some (if n = name then put_entry (url req) resp c else c))"
  by (induction cs) (auto simp: store_put_def)

lemma lookup_store_put_other:
  "url q \<noteq> url req \<Longrightarrow> lookup (store_put name req resp cs) n q = lookup cs n q"
  by (simp add: lookup_def map_of_store_put map_of_put_entry split: option.splits)

lemma lookup_store_put_all_other:
  "url q \<notin> url ` fst ` set rs \<Longrightarrow> lookup (store_put_all name rs cs) n q = lookup cs n q"
  by (induction rs arbitrary: cs) (auto simp: lookup_store_put_other)

subsection \<open>Install\<close>

lemma fetch_all_fails:
  "r \<in> set reqs \<Longrightarrow> fetch_fails net r \<Longrightarrow> \<exists>e. fetch_all net reqs = Inl e"
proof (induction reqs)
  case Nil
  then show ?case by simp
next
  case (Cons a reqs)
  show ?case
  proof (cases "fetch_fails net a")
    case True
    then show ?thesis
      by (auto simp: fetch_fails_def split: fetch_result.splits)
  next
    case False
    with Cons.prems have "r \<in> set reqs" by auto
    with Cons obtain e where "fetch_all net reqs = Inl e" by blast
    then show ?thesis
      by (auto split: fetch_result.splits)
  qed
qed

lemma install_failure:
  assumes "path \<in> set PRECACHE_ASSETS" and "fetch_fails net (url_request loc path)"
  shows "install loc net s =
           (Resolved (),
            emit (CacheAddAll CACHE_NAME (map (url_request loc) PRECACHE_ASSETS))
              (caches_open CACHE_NAME s))"
proof -
  from assms have "url_request loc path \<in> set (map (url_request loc) PRECACHE_ASSETS)"
    by simp
  from fetch_all_fails[OF this assms(2)]
  obtain e where "fetch_all net (map (url_request loc) PRECACHE_ASSETS) = Inl e" ..
  then show ?thesis
    by (simp add: install_def cache_addAll_def Let_def)
qed

lemma css_listed: "''/assets/css/main.css'' \<in> set PRECACHE_ASSETS"
  by (simp add: PRECACHE_ASSETS_def)

lemma css_fetch_fails: "fetch_fails net_css_missing (url_request site ''/assets/css/main.css'')"
  by (simp add: fetch_fails_def net_css_missing_def url_request_def ok_def not_found_def)

text \<open>
  C1: the claim requires that a failed precache fetch makes the whole install attempt
  fail, the promise given to the install event rejecting. With the stylesheet answering
  404 on an empty storage, the handler leaves the static store with zero entries and does
  not call \<open>skipWaiting\<close>, as the claim says; but the final \<open>catch\<close> of its chain only
  logs the error, so the promise given to \<open>event.waitUntil\<close> resolves and the install
  counts as successful.
\<close>

theorem install_failure_resolves:
  "''/assets/css/main.css'' \<in> set PRECACHE_ASSETS \<and>
   net_css_missing (url_request site ''/assets/css/main.css'') = Fetched not_found \<and>
   \<not> ok not_found \<and>
   fst (install site net_css_missing fresh) = Resolved () \<and>
   fst (install site net_css_missing fresh) \<noteq> Rejected (BadStatus 404) \<and>
   map_of (caches (snd (install site net_css_missing fresh))) CACHE_NAME = Some [] \<and>
   events (snd (install site net_css_missing fresh)) =
     [CachesOpen CACHE_NAME, CacheAddAll CACHE_NAME (map (url_request site) PRECACHE_ASSETS)]"
  by (simp add: install_failure[OF css_listed css_fetch_fails] css_listed
      net_css_missing_def url_request_def ok_def not_found_def
      emit_def events_open map_of_open fresh_def)

subsection \<open>The offline page and the precache list\<close>

lemma lookup_addAll_other:
  assumes "path \<notin> set paths"
  shows "lookup (caches (snd (cache_addAll loc net name paths s))) n (url_request loc path) =
         lookup (caches s) n (url_request loc path)"
proof (cases "fetch_all net (map (url_request loc) paths)")
  case (Inl e)
  then show ?thesis
    by (simp add: cache_addAll_def emit_def Let_def)
next
  case (Inr resps)
  have "url (url_request loc path) \<notin>
          url ` fst ` set (zip (map (url_request loc) paths) resps)"
  proof
    assume "url (url_request loc path) \<in> url ` fst ` set (zip (map (url_request loc) paths) resps)"
    then obtain r resp where "(r, resp) \<in> set (zip (map (url_request loc) paths) resps)"
      and "url (url_request loc path) = url r" by auto
    from this(1) have "r \<in> set (map (url_request loc) paths)"
      by (rule set_zip_leftD)
    then obtain p where "p \<in> set paths" and "r = url_request loc p" by auto
    with \<open>url (url_request loc path) = url r\<close> assms show False
      by (simp add: url_request_def)
  qed
  with Inr show ?thesis
    by (simp add: cache_addAll_def emit_def Let_def lookup_store_put_all_other)
qed

lemma lookup_install_other:
  assumes "path \<notin> set PRECACHE_ASSETS"
  shows "lookup (caches (snd (install loc net s))) n (url_request loc path) =
         lookup (caches s) n (url_request loc path)"
proof -
  have "caches (snd (install loc net s)) =
          caches (snd (cache_addAll loc net CACHE_NAME PRECACHE_ASSETS (caches_open CACHE_NAME s)))"
    by (simp add: install_def Let_def emit_def split: prod.splits promise.splits)
  then show ?thesis
    by (simp add: lookup_addAll_other[OF assms] lookup_open)
qed

lemma offline_not_listed: "''/offline.html'' \<notin> set PRECACHE_ASSETS"
  by (simp add: PRECACHE_ASSETS_def)

lemma fetch_all_online:
  "fetch_all net_online reqs = Inr (map (\<lambda>r. page_response) reqs)"
  by (induction reqs) (simp_all add: net_online_def ok_def page_response_def)

lemma install_online:
  "install site net_online fresh =
     (Resolved (),
      \<lparr>caches = store_put_all CACHE_NAME
                  (zip (map (url_request site) PRECACHE_ASSETS)
                       (map (\<lambda>r. page_response) (map (url_request site) PRECACHE_ASSETS)))
                  [(CACHE_NAME, [])],
       events = [CachesOpen CACHE_NAME,
                 CacheAddAll CACHE_NAME (map (url_request site) PRECACHE_ASSETS),
                 SkipWaiting]\<rparr>)"
  by (simp add: install_def cache_addAll_def Let_def fetch_all_online caches_open_def emit_def
      fresh_def)

text \<open>
  C3: the claim says that the offline fallback page \<open>/offline.html\<close> is a member of the
  precache list and so is in the static store after a successful install. The list of
  the script does not name it: installing never adds an entry for the offline page to
  the static store, whatever the network answers.
\<close>

theorem offline_page_not_precached:
  "''/offline.html'' \<notin> set PRECACHE_ASSETS \<and>
   (lookup (caches s) CACHE_NAME (url_request loc ''/offline.html'') = None \<longrightarrow>
    lookup (caches (snd (install loc net s))) CACHE_NAME (url_request loc ''/offline.html'') = None)"
  by (simp add: offline_not_listed lookup_install_other)

theorem offline_page_not_precached_witness:
  "lookup (caches fresh) CACHE_NAME (url_request site ''/offline.html'') = None \<and>
   fst (install site net_online fresh) = Resolved () \<and>
   SkipWaiting \<in> set (events (snd (install site net_online fresh))) \<and>
   lookup (caches (snd (install site net_online fresh))) CACHE_NAME
     (url_request site ''/offline.html'') = None"
  using offline_page_not_precached[of fresh site net_online]
  by (simp add: install_online) (simp add: lookup_def fresh_def)

subsection \<open>Activate\<close>

lemma delete_if_old_caches:
  "caches (delete_if_old a s) = filter (\<lambda>(n, c). \<not> (n = a \<and> \<not> is_current n)) (caches s)"
  by (auto simp: delete_if_old_def caches_delete_def emit_def is_current_def intro!: filter_cong)

lemma delete_if_old_events:
  "events (delete_if_old a s) = events s @ (if is_current a then [] else [CachesDelete a])"
  by (simp add: delete_if_old_def caches_delete_def emit_def is_current_def)

lemma fold_delete_caches:
  "caches (fold delete_if_old ns s) =
     filter (\<lambda>(n, c). \<not> (n \<in> set ns \<and> \<not> is_current n)) (caches s)"
proof (induction ns arbitrary: s)
  case Nil
  then show ?case by simp
next
  case (Cons a ns)
  have "caches (fold delete_if_old (a # ns) s) =
          filter (\<lambda>(n, c). \<not> (n \<in> set ns \<and> \<not> is_current n)) (caches (delete_if_old a s))"
    by (simp add: Cons)
  also have "\<dots> = filter (\<lambda>(n, c). \<not> (n \<in> set (a # ns) \<and> \<not> is_current n)) (caches s)"
    unfolding delete_if_old_caches filter_filter by (rule filter_cong) auto
  finally show ?case .
qed

lemma fold_delete_events:
  "events (fold delete_if_old ns s) =
     events s @ map CachesDelete (filter (\<lambda>n. \<not> is_current n) ns)"
  by (induction ns arbitrary: s) (simp_all add: delete_if_old_events)

lemma activate_snd:
  "snd (activate s) =
     emit ClientsClaim (fold delete_if_old (map fst (caches s)) (emit CachesKeys s))"
  by (simp add: activate_def caches_keys_def Let_def)

lemma activate_caches:
  "caches (snd (activate s)) = filter (\<lambda>(n, c). is_current n) (caches s)"
  unfolding activate_snd
  by (simp add: emit_def fold_delete_caches) (rule filter_cong, force+)

lemma activate_events:
  "events (snd (activate s)) =
     events s @ [CachesKeys] @
       map CachesDelete (filter (\<lambda>n. \<not> is_current n) (map fst (caches s))) @ [ClientsClaim]"
  unfolding activate_snd by (simp add: emit_def fold_delete_events)

lemma activate_deletions:
  "deletions (events (snd (activate s))) =
     deletions (events s) @ filter (\<lambda>n. \<not> is_current n) (map fst (caches s))"
  by (simp add: activate_events deletions_append deletions_map_delete)

lemma filter_current_idem:
  "filter (\<lambda>n. \<not> is_current n) (map fst (filter (\<lambda>(n, c). is_current n) cs)) = []"
  by (induction cs) auto

text \<open>
  C8: after the activate handler completes, every cache store whose name is not exactly
  the current static or runtime store name has been deleted: the names that remain are
  the two current ones, and every other name that was there is gone and was the object
  of a \<open>caches.delete\<close> call.
\<close>

theorem activate_removes_stale:
  "fst (activate s) = Resolved () \<and>
   (\<forall>name \<in> set (map fst (caches (snd (activate s)))). name = CACHE_NAME \<or> name = RUNTIME_CACHE) \<and>
   (\<forall>name \<in> set (map fst (caches s)). name \<noteq> CACHE_NAME \<and> name \<noteq> RUNTIME_CACHE \<longrightarrow>
       name \<notin> set (map fst (caches (snd (activate s)))) \<and>
       name \<in> set (deletions (events (snd (activate s)))))"
proof (intro conjI)
  show "fst (activate s) = Resolved ()"
    by (simp add: activate_def caches_keys_def Let_def)
  show "\<forall>name \<in> set (map fst (caches (snd (activate s)))). name = CACHE_NAME \<or> name = RUNTIME_CACHE"
    by (auto simp: activate_caches is_current_def)
  show "\<forall>name \<in> set (map fst (caches s)). name \<noteq> CACHE_NAME \<and> name \<noteq> RUNTIME_CACHE \<longrightarrow>
       name \<notin> set (map fst (caches (snd (activate s)))) \<and>
       name \<in> set (deletions (events (snd (activate s))))"
    by (auto simp: activate_caches activate_deletions is_current_def)
qed

theorem activate_removes_stale_witness:
  "''ai-interior-v0.9.0::static'' \<in> set (map fst (caches three_stores)) \<and>
   ''ai-interior-v0.9.0::static'' \<notin> set (map fst (caches (snd (activate three_stores)))) \<and>
   map fst (caches (snd (activate three_stores))) = [CACHE_NAME, RUNTIME_CACHE] \<and>
   deletions (events (snd (activate three_stores))) = [''ai-interior-v0.9.0::static'']"
  using activate_removes_stale[of three_stores]
  by (simp add: activate_caches activate_deletions three_stores_def is_current_def current_names)

text \<open>
  C9: running the activate handler twice in succession, with the same cache version, is
  idempotent: the second run deletes no store and leaves the stores as the first run left
  them; its only calls are \<open>caches.keys\<close> and \<open>clients.claim\<close>.
\<close>

theorem activate_twice:
  "caches (snd (activate (snd (activate s)))) = caches (snd (activate s)) \<and>
   deletions (events (snd (activate (snd (activate s))))) = deletions (events (snd (activate s))) \<and>
   events (snd (activate (snd (activate s)))) = events (snd (activate s)) @ [CachesKeys, ClientsClaim]"
proof (intro conjI)
  show "caches (snd (activate (snd (activate s)))) = caches (snd (activate s))"
    by (simp add: activate_caches)
  show "deletions (events (snd (activate (snd (activate s))))) = deletions (events (snd (activate s)))"
    by (simp add: activate_deletions[of "snd (activate s)"] activate_caches filter_current_idem)
  show "events (snd (activate (snd (activate s)))) = events (snd (activate s)) @ [CachesKeys, ClientsClaim]"
    by (simp add: activate_events[of "snd (activate s)"] activate_caches filter_current_idem)
qed

theorem activate_twice_witness:
  "deletions (events (snd (activate three_stores))) = [''ai-interior-v0.9.0::static''] \<and>
   deletions (events (snd (activate (snd (activate three_stores))))) = [''ai-interior-v0.9.0::static''] \<and>
   map fst (caches (snd (activate (snd (activate three_stores))))) = [CACHE_NAME, RUNTIME_CACHE]"
  using activate_twice[of three_stores]
  by (simp add: activate_caches activate_deletions deletions_append three_stores_def
      is_current_def current_names)

subsection \<open>Cache first\<close>

lemma cache_first_hit:
  assumes "lookup (caches s) cacheName req = Some cached"
  shows "cacheFirst loc net req cacheName s =
           (Resolved cached, s\<lparr>events := events s @ [CachesOpen cacheName, CacheMatch cacheName req]\<rparr>)"
proof -
  from assms obtain c where "map_of (caches s) cacheName = Some c"
    by (auto simp: lookup_def split: if_splits option.splits)
  then have "caches (caches_open cacheName s) = caches s"
    by (rule caches_open_existing)
  with assms show ?thesis
    by (simp add: cacheFirst_def cache_match_def lookup_open events_open emit_def Let_def)
qed

lemma cache_first_offline:
  assumes "lookup (caches s) cacheName req = None" and "net req = NetworkError"
  shows "cacheFirst loc net req cacheName s =
           (Resolved (case lookup (caches s) cacheName (url_request loc ''/offline.html'') of
                        Some p \<Rightarrow> p | None \<Rightarrow> offline_content_response),
            s\<lparr>caches := caches (caches_open cacheName s),
              events := events s @ [CachesOpen cacheName, CacheMatch cacheName req, Fetch req,
                                    CacheMatch cacheName (url_request loc ''/offline.html'')]\<rparr>)"
  using assms
  by (simp add: cacheFirst_def cache_match_def fetch_def lookup_open events_open emit_def Let_def
      split: option.splits)

lemma lookup_warm:
  "lookup (caches warm) CACHE_NAME css_request = Some page_response"
  "lookup (caches warm) CACHE_NAME image_request = None"
  "lookup (caches warm) CACHE_NAME (url_request site ''/offline.html'') = Some offline_page"
  "lookup (caches warm) RUNTIME_CACHE font_request = None"
  "lookup (caches warm) RUNTIME_CACHE (url_request site ''/offline.html'') = None"
  "lookup (caches warm) RUNTIME_CACHE about_navigation = None"
  by (simp_all add: lookup_def warm_def current_names css_request_def image_request_def
      font_request_def about_navigation_def url_request_def site_def)

text \<open>
  C5: for every same-origin GET request that is neither a navigation nor an API request
  and whose URL has an entry in the static store, the handler answers with that cached
  response and performs no network fetch: the run consists of \<open>caches.open\<close> and
  \<open>cache.match\<close> only, and the stores are unchanged.
\<close>

theorem cache_first_serves_static_hit:
  assumes "origin req = loc" and "http_method req = ''GET''" and "mode req \<noteq> ''navigate''"
    and "\<not> str_includes (url req) ''/api/''"
    and "lookup (caches s) CACHE_NAME req = Some cached"
  shows "fst (fetch_handler loc net req s) = RespondWith (Resolved cached) \<and>
         fetches (events (snd (fetch_handler loc net req s))) = fetches (events s) \<and>
         events (snd (fetch_handler loc net req s)) =
           events s @ [CachesOpen CACHE_NAME, CacheMatch CACHE_NAME req] \<and>
         caches (snd (fetch_handler loc net req s)) = caches s"
  using assms(1-4)
  by (simp add: fetch_handler_def respond_def cache_first_hit[OF assms(5)] fetches_append)

theorem cache_first_serves_static_hit_witness:
  "origin css_request = site \<and> http_method css_request = ''GET'' \<and> mode css_request \<noteq> ''navigate'' \<and>
   \<not> str_includes (url css_request) ''/api/'' \<and>
   lookup (caches warm) CACHE_NAME css_request = Some page_response \<and>
   fst (fetch_handler site net_offline css_request warm) = RespondWith (Resolved page_response) \<and>
   fetches (events (snd (fetch_handler site net_offline css_request warm))) = []"
proof -
  have h: "origin css_request = site" "http_method css_request = ''GET''"
    "mode css_request \<noteq> ''navigate''" "\<not> str_includes (url css_request) ''/api/''"
    by (simp_all add: css_request_def site_def)
  from cache_first_serves_static_hit[OF h lookup_warm(1), of net_offline] h lookup_warm(1)
  show ?thesis
    by (simp add: warm_def)
qed

text \<open>
  C7: for every request served by the cache-first strategy, if the request is not cached
  and the network fetch throws, the strategy returns the offline fallback page of the
  given store when it is there, and otherwise a synthetic 503 response with a plain-text
  offline message; the promise of the strategy resolves in both cases.
\<close>

theorem cache_first_network_failure:
  assumes "lookup (caches s) cacheName req = None" and "net req = NetworkError"
  shows "fst (cacheFirst loc net req cacheName s) =
           Resolved (case lookup (caches s) cacheName (url_request loc ''/offline.html'') of
                       Some p \<Rightarrow> p | None \<Rightarrow> offline_content_response) \<and>
         (\<forall>e. fst (cacheFirst loc net req cacheName s) \<noteq> Rejected e) \<and>
         status offline_content_response = 503 \<and>
         body offline_content_response = ''Offline - Content not available'' \<and>
         headers offline_content_response = [(''Content-Type'', ''text/plain'')]"
  by (simp add: cache_first_offline[where net=net, OF assms] offline_content_response_def)

theorem cache_first_network_failure_witness:
  "lookup (caches warm) CACHE_NAME image_request = None \<and>
   net_offline image_request = NetworkError \<and>
   fst (cacheFirst site net_offline image_request CACHE_NAME warm) = Resolved offline_page \<and>
   lookup (caches fresh) CACHE_NAME image_request = None \<and>
   fst (cacheFirst site net_offline image_request CACHE_NAME fresh) =
     Resolved offline_content_response"
proof -
  have n: "net_offline image_request = NetworkError"
    by (simp add: net_offline_def)
  have f: "lookup (caches fresh) CACHE_NAME image_request = None"
    "lookup (caches fresh) CACHE_NAME (url_request site ''/offline.html'') = None"
    by (simp_all add: lookup_def fresh_def)
  from cache_first_network_failure[where net=net_offline, OF lookup_warm(2) n, of site]
    cache_first_network_failure[where net=net_offline, OF f(1) n, of site]
  show ?thesis
    by (simp add: lookup_warm n f)
qed

text \<open>
  C10: the cache-first strategy looks for the offline page only in the store it was
  called with. For an allow-listed cross-origin request, served against the runtime
  store, if the request is not cached there, the network fetch throws and
  \<open>/offline.html\<close> is not in the runtime store, the answer is the synthetic 503 plain-text
  response, whatever the static store holds: every cache call of the run names the
  runtime store.
\<close>

theorem external_fallback_ignores_static:
  assumes "origin req \<noteq> loc" and "shouldCacheExternal (url req)"
    and "net req = NetworkError"
    and "lookup (caches s) RUNTIME_CACHE req = None"
    and "lookup (caches s) RUNTIME_CACHE (url_request loc ''/offline.html'') = None"
  shows "fst (fetch_handler loc net req s) = RespondWith (Resolved offline_content_response) \<and>
         events (snd (fetch_handler loc net req s)) =
           events s @ [CachesOpen RUNTIME_CACHE, CacheMatch RUNTIME_CACHE req, Fetch req,
                       CacheMatch RUNTIME_CACHE (url_request loc ''/offline.html'')]"
  using assms(1,2,5)
  by (simp add: fetch_handler_def respond_def cache_first_offline[where net=net, OF assms(4,3)])

theorem external_fallback_ignores_static_witness:
  "origin font_request \<noteq> site \<and> shouldCacheExternal (url font_request) \<and>
   net_offline font_request = NetworkError \<and>
   lookup (caches warm) CACHE_NAME (url_request site ''/offline.html'') = Some offline_page \<and>
   lookup (caches warm) RUNTIME_CACHE (url_request site ''/offline.html'') = None \<and>
   fst (fetch_handler site net_offline font_request warm) =
     RespondWith (Resolved offline_content_response)"
proof -
  have h: "origin font_request \<noteq> site" "shouldCacheExternal (url font_request)"
    "net_offline font_request = NetworkError"
    by (simp_all add: font_request_def site_def shouldCacheExternal_def RUNTIME_CACHE_URLS_def
        net_offline_def)
  from external_fallback_ignores_static[where net=net_offline, OF h lookup_warm(4,5)] h
  show ?thesis
    by (simp add: lookup_warm)
qed

subsection \<open>Network first\<close>

lemma network_first_offline:
  assumes "net req = NetworkError"
  shows "fst (networkFirst loc net req s) =
           Resolved
             (case lookup (caches s) RUNTIME_CACHE req of
                Some c \<Rightarrow> c
              | None \<Rightarrow>
                  if mode req = ''navigate''
                  then (case lookup_any (caches s) (url_request loc ''/offline.html'') of
                          Some p \<Rightarrow> p
                        | None \<Rightarrow>
                            (case lookup_any (caches s) (url_request loc ''/index.html'') of
                               Some p \<Rightarrow> p
                             | None \<Rightarrow> offline_response))
                  else offline_response)"
  using assms
  by (simp add: networkFirst_def cache_match_def caches_match_def fetch_def lookup_open
      lookup_any_open emit_def Let_def url_request_def split: option.splits)

lemma navigation_offline: "mode about_navigation = ''navigate''" "net_offline about_navigation = NetworkError"
  by (simp_all add: about_navigation_def net_offline_def)

text \<open>
  C6: for every navigation request whose network fetch rejects, the network-first
  strategy returns, in this order of preference, the runtime store's cached copy of the
  same request, else the cached offline page, else the cached shell document, else a
  synthetic 503 response; its promise never rejects.
\<close>

theorem network_first_navigation_fallback:
  assumes "mode req = ''navigate''" and "net req = NetworkError"
  shows "fst (networkFirst loc net req s) =
           Resolved
             (case lookup (caches s) RUNTIME_CACHE req of
                Some c \<Rightarrow> c
              | None \<Rightarrow>
                  (case lookup_any (caches s) (url_request loc ''/offline.html'') of
                     Some p \<Rightarrow> p
                   | None \<Rightarrow>
                       (case lookup_any (caches s) (url_request loc ''/index.html'') of
                          Some p \<Rightarrow> p
                        | None \<Rightarrow> offline_response))) \<and>
         (\<forall>e. fst (networkFirst loc net req s) \<noteq> Rejected e) \<and>
         status offline_response = 503"
  by (simp add: network_first_offline[where net=net, OF assms(2)] assms(1) offline_response_def)

theorem network_first_navigation_fallback_witness:
  "mode about_navigation = ''navigate'' \<and> net_offline about_navigation = NetworkError \<and>
   fst (networkFirst site net_offline about_navigation warm) = Resolved offline_page \<and>
   fst (networkFirst site net_offline about_navigation shell_only) = Resolved shell_response \<and>
   fst (networkFirst site net_offline about_navigation fresh) = Resolved offline_response"
  using network_first_navigation_fallback[where net=net_offline, OF navigation_offline, of site warm]
    network_first_navigation_fallback[where net=net_offline, OF navigation_offline, of site shell_only]
    network_first_navigation_fallback[where net=net_offline, OF navigation_offline, of site fresh]
  by (simp add: net_offline_def lookup_def warm_def shell_only_def fresh_def current_names
      about_navigation_def url_request_def site_def)

subsection \<open>Dispatch of the fetch handler\<close>

text \<open>
  C2, as the claim states it, fails: the handler tests for \<open>/api/\<close> in the URL before it
  tests the method. A POST to \<open>/api/contact\<close> is served by \<open>networkFirst\<close>: offline, the
  request is looked up in the runtime store and the page receives the synthetic 503
  instead of the network's failure; online, the response is handed to \<open>cache.put\<close>.
\<close>

theorem api_post_counterexample:
  "http_method api_post \<noteq> ''GET'' \<and>
   fetch_handler site net_offline api_post fresh =
     (RespondWith (Resolved offline_response),
      \<lparr>caches = [(RUNTIME_CACHE, [])],
       events = [CachesOpen RUNTIME_CACHE, Fetch api_post, CacheMatch RUNTIME_CACHE api_post]\<rparr>) \<and>
   events (snd (fetch_handler site net_online api_post fresh)) =
     [CachesOpen RUNTIME_CACHE, Fetch api_post, CachePut RUNTIME_CACHE api_post page_response]"
  by (simp add: fetch_handler_def respond_def networkFirst_def fetch_def cache_match_def
      cache_put_def caches_open_def emit_def lookup_def Let_def api_post_def site_def fresh_def
      net_offline_def net_online_def ok_def page_response_def)

text \<open>
  C2 (amended): for every non-GET request that is same-origin with a URL that does not
  contain \<open>/api/\<close>, the handler answers with the plain network fetch of the request: the
  fetch is the only call of the run, no cache store is opened, looked up or written, and
  a network failure reaches the page as it is. A non-GET cross-origin request outside the
  allow-list is not intercepted at all. A non-GET same-origin request whose URL contains
  \<open>/api/\<close> is served by the network-first strategy, and a non-GET request to an
  allow-listed external URL by the cache-first strategy against the runtime store,
  because the handler tests the origin and the \<open>/api/\<close> path before the method.
\<close>

theorem non_get_passthrough:
  assumes "http_method req \<noteq> ''GET''"
  shows "(origin req = loc \<and> \<not> str_includes (url req) ''/api/'' \<longrightarrow>
            fetch_handler loc net req s =
              (RespondWith (fetch_promise (net req)), s\<lparr>events := events s @ [Fetch req]\<rparr>)) \<and>
         (origin req \<noteq> loc \<and> \<not> shouldCacheExternal (url req) \<longrightarrow>
            fetch_handler loc net req s = (NoRespond, s)) \<and>
         (origin req = loc \<and> str_includes (url req) ''/api/'' \<longrightarrow>
            fetch_handler loc net req s = respond (networkFirst loc net req s)) \<and>
         (origin req \<noteq> loc \<and> shouldCacheExternal (url req) \<longrightarrow>
            fetch_handler loc net req s = respond (cacheFirst loc net req RUNTIME_CACHE s))"
  using assms by (simp add: fetch_handler_def fetch_def emit_def)

theorem non_get_passthrough_witness:
  "http_method contact_post \<noteq> ''GET'' \<and> origin contact_post = site \<and>
   \<not> str_includes (url contact_post) ''/api/'' \<and>
   fetch_handler site net_offline contact_post warm =
     (RespondWith (Rejected NetworkFailure), warm\<lparr>events := [Fetch contact_post]\<rparr>) \<and>
   http_method formsubmit_post \<noteq> ''GET'' \<and> origin formsubmit_post \<noteq> site \<and>
   \<not> shouldCacheExternal (url formsubmit_post) \<and>
   fetch_handler site net_online formsubmit_post warm = (NoRespond, warm) \<and>
   http_method api_post \<noteq> ''GET'' \<and> origin api_post = site \<and>
   str_includes (url api_post) ''/api/'' \<and>
   fetch_handler site net_offline api_post warm =
     respond (networkFirst site net_offline api_post warm) \<and>
   http_method font_post \<noteq> ''GET'' \<and> origin font_post \<noteq> site \<and>
   shouldCacheExternal (url font_post) \<and>
   fetch_handler site net_offline font_post warm =
     respond (cacheFirst site net_offline font_post RUNTIME_CACHE warm)"
proof -
  have c: "http_method contact_post \<noteq> ''GET''" "origin contact_post = site"
    "\<not> str_includes (url contact_post) ''/api/''"
    by (simp_all add: contact_post_def site_def)
  have f: "http_method formsubmit_post \<noteq> ''GET''" "origin formsubmit_post \<noteq> site"
    "\<not> shouldCacheExternal (url formsubmit_post)"
    by (simp_all add: formsubmit_post_def site_def shouldCacheExternal_def RUNTIME_CACHE_URLS_def)
  have a: "http_method api_post \<noteq> ''GET''" "origin api_post = site"
    "str_includes (url api_post) ''/api/''"
    by (simp_all add: api_post_def site_def)
  have p: "http_method font_post \<noteq> ''GET''" "origin font_post \<noteq> site"
    "shouldCacheExternal (url font_post)"
    by (simp_all add: font_post_def site_def shouldCacheExternal_def RUNTIME_CACHE_URLS_def)
  from non_get_passthrough[OF c(1), of site net_offline warm]
    non_get_passthrough[OF f(1), of site net_online warm]
    non_get_passthrough[OF a(1), of site net_offline warm]
    non_get_passthrough[OF p(1), of site net_offline warm] c f a p
  show ?thesis
    by (simp add: fetch_promise_def net_offline_def warm_def)
qed




end
